theory Spec2Isabelle
  imports Complex_Main "HOL-Library.AList"
begin

section \<open>Python values\<close>

text \<open>
  The workflow graph, the request body and the engine's replies are JSON-shaped Python
  values.  A dict is an association list in insertion order with distinct keys; a float
  is idealised as a real number (NaN and the infinities are outside the model); a
  string is a list of characters, non-ASCII text being carried as its UTF-8 bytes.
  Values are trees: the graphs of this program come from a dict literal or from JSON,
  so no two places share one object.
\<close>

datatype pyval =
    PNone
  | PBool bool
  | PInt int
  | PFloat real
  | PStr string
  | PList "pyval list"
  | PDict "(string \<times> pyval) list"

type_synonym pydict = "(string \<times> pyval) list"

text \<open>Exceptions, each carrying the text that \<open>str(e)\<close> gives.\<close>

datatype py_error =
    TimeoutError string
  | RuntimeError string
  | ValueError string
  | KeyError string
  | TypeError string
  | AttributeError string
  | OtherError string

fun error_text :: "py_error \<Rightarrow> string" where
  "error_text (TimeoutError m) = m"
| "error_text (RuntimeError m) = m"
| "error_text (ValueError m) = m"
| "error_text (KeyError m) = m"
| "error_text (TypeError m) = m"
| "error_text (AttributeError m) = m"
| "error_text (OtherError m) = m"

text \<open>\<open>k in d\<close> for a dict.\<close>

definition has_key :: "pydict \<Rightarrow> string \<Rightarrow> bool" where
  "has_key d k = (map_of d k \<noteq> None)"

text \<open>
  \<open>w[n]["inputs"][k] = v\<close>: the node is looked up (KeyError when absent), then its
  \<open>inputs\<close> (KeyError when absent, TypeError when the node is not a dict), and the
  item is stored (TypeError when \<open>inputs\<close> is not a dict).  An existing key keeps its
  position, a new key goes to the end, as in a Python dict.
\<close>

definition set_input :: "pydict \<Rightarrow> string \<Rightarrow> string \<Rightarrow> pyval \<Rightarrow> py_error + pydict" where
  "set_input w n k v =
     (case map_of w n of
        None \<Rightarrow> Inl (KeyError n)
      | Some (PDict node) \<Rightarrow>
          (case map_of node ''inputs'' of
             None \<Rightarrow> Inl (KeyError ''inputs'')
           | Some (PDict ins) \<Rightarrow>
               Inr (AList.update n
                      (PDict (AList.update ''inputs'' (PDict (AList.update k v ins)) node)) w)
           | Some _ \<Rightarrow> Inl (TypeError ''object does not support item assignment''))
      | Some _ \<Rightarrow> Inl (TypeError ''object is not subscriptable''))"

text \<open>Reading \<open>w[n]["inputs"][k]\<close> and \<open>w[n][f]\<close>, \<open>None\<close> where any step is missing.\<close>

definition input_of :: "pydict \<Rightarrow> string \<Rightarrow> string \<Rightarrow> pyval option" where
  "input_of w n k =
     (case map_of w n of
        Some (PDict node) \<Rightarrow>
          (case map_of node ''inputs'' of
             Some (PDict ins) \<Rightarrow> map_of ins k
           | _ \<Rightarrow> None)
      | _ \<Rightarrow> None)"

definition inputs_of :: "pydict \<Rightarrow> string \<Rightarrow> pydict option" where
  "inputs_of w n =
     (case map_of w n of
        Some (PDict node) \<Rightarrow>
          (case map_of node ''inputs'' of
             Some (PDict ins) \<Rightarrow> Some ins
           | _ \<Rightarrow> None)
      | _ \<Rightarrow> None)"

definition field_of :: "pydict \<Rightarrow> string \<Rightarrow> string \<Rightarrow> pyval option" where
  "field_of w n f =
     (case map_of w n of
        Some (PDict node) \<Rightarrow> map_of node f
      | _ \<Rightarrow> None)"


text \<open>
  Two graphs of one shape: the same node ids in the same order, and in every node the
  same fields beside \<open>inputs\<close> and a dict of inputs in the one exactly when in the other.
\<close>

definition same_shape :: "pydict \<Rightarrow> pydict \<Rightarrow> bool" where
  "same_shape w w' =
     (map fst w' = map fst w
      \<and> (\<forall>n. (inputs_of w' n = None) = (inputs_of w n = None))
      \<and> (\<forall>n f. f \<noteq> ''inputs'' \<longrightarrow> field_of w' n f = field_of w n f))"

section \<open>Decimal strings and random integers\<close>

text \<open>
  \<open>str.isdigit\<close> and \<open>int\<close> on the ASCII digits (the digits of other scripts are not
  byte strings here), and \<open>str\<close> of an integer.  \<open>int\<close> is modelled without the
  interpreter's configurable limit on the number of digits.
\<close>

definition is_digit_char :: "char \<Rightarrow> bool" where
  "is_digit_char c = (c \<in> set ''0123456789'')"

definition isdigit :: "string \<Rightarrow> bool" where
  "isdigit s = (s \<noteq> [] \<and> list_all is_digit_char s)"

definition digit_value :: "char \<Rightarrow> nat" where
  "digit_value c = of_char c - 48"

definition int_of_str :: "string \<Rightarrow> int" where
  "int_of_str s = int (foldl (\<lambda>acc c. 10 * acc + digit_value c) 0 s)"

definition digit_char :: "nat \<Rightarrow> char" where
  "digit_char d = ''0123456789'' ! d"

function str_nat :: "nat \<Rightarrow> string" where
  "str_nat n = (if n < 10 then [digit_char n] else str_nat (n div 10) @ [digit_char (n mod 10)])"
  by pat_completeness auto
termination
  by (relation "measure id") auto

definition str_int :: "int \<Rightarrow> string" where
  "str_int i = (if i < 0 then CHR ''-'' # str_nat (nat (- i)) else str_nat (nat i))"

text \<open>
  \<open>random.randint(a, b)\<close> draws an integer between \<open>a\<close> and \<open>b\<close>, both included.  The
  generator's state is an explicit argument \<open>r\<close>; every value of the range is drawn for
  some \<open>r\<close>.
\<close>

definition randint :: "nat \<Rightarrow> int \<Rightarrow> int \<Rightarrow> int" where
  "randint r a b = a + int r mod (b - a + 1)"

section \<open>The workflow template (workflow_template.py)\<close>

definition INPUT_IMAGE_PLACEHOLDER :: string where
  "INPUT_IMAGE_PLACEHOLDER = ''__INPUT_IMAGE__''"

definition PROMPT_PLACEHOLDER :: string where
  "PROMPT_PLACEHOLDER = ''__PROMPT__''"

definition SEED_PLACEHOLDER :: string where
  "SEED_PLACEHOLDER = ''__SEED__''"

definition STEPS_PLACEHOLDER :: string where
  "STEPS_PLACEHOLDER = ''__STEPS__''"

definition CFG_PLACEHOLDER :: string where
  "CFG_PLACEHOLDER = ''__CFG__''"

definition OUTPUT_PREFIX_PLACEHOLDER :: string where
  "OUTPUT_PREFIX_PLACEHOLDER = ''__OUTPUT_PREFIX__''"

text \<open>A reference to output slot \<open>i\<close> of node \<open>n\<close> is the two-element list \<open>[n, i]\<close>.\<close>

definition ref :: "string \<Rightarrow> int \<Rightarrow> pyval" where
  "ref n i = PList [PStr n, PInt i]"

definition node :: "string \<Rightarrow> pydict \<Rightarrow> pyval" where
  "node cls ins = PDict [(''class_type'', PStr cls), (''inputs'', PDict ins)]"

definition get_workflow_template :: pydict where
  "get_workflow_template =
    [ (''22'', node ''VAELoader''
         [(''vae_name'', PStr ''qwen_image_vae.safetensors'')]),
      (''76'', node ''CLIPLoader''
         [(''clip_name'', PStr ''qwen_2.5_vl_7b.safetensors''),
          (''type'', PStr ''stable_diffusion''),
          (''device'', PStr ''default'')]),
      (''77'', node ''UNETLoader''
         [(''unet_name'', PStr ''Qwen-Image-Edit-2511.safetensors''),
          (''weight_dtype'', PStr ''default'')]),
      (''125'', node ''LoraLoaderModelOnly''
         [(''model'', ref ''77'' 0),
          (''lora_name'', PStr ''Qwen-Image-Lightning-4steps-V1.0.safetensors''),
          (''strength_model'', PFloat (8 / 10))]),
      (''20'', node ''LoraLoaderModelOnly''
         [(''model'', ref ''125'' 0),
          (''lora_name'', PStr ''Qwen-Image-Lightning-8steps-V1.0.safetensors''),
          (''strength_model'', PFloat 1)]),
      (''31'', node ''LoadImage''
         [(''image'', PStr INPUT_IMAGE_PLACEHOLDER),
          (''upload'', PStr ''image'')]),
      (''39'', node ''ImageScaleToTotalPixels''
         [(''image'', ref ''31'' 0),
          (''upscale_method'', PStr ''lanczos''),
          (''megapixels'', PInt 1),
          (''resolution_steps'', PInt 1)]),
      (''10'', node ''VAEEncode''
         [(''pixels'', ref ''39'' 0),
          (''vae'', ref ''22'' 0)]),
      (''115'', node ''TextEncodeQwenImageEditPlus''
         [(''clip'', ref ''76'' 0),
          (''vae'', ref ''22'' 0),
          (''image1'', ref ''39'' 0),
          (''text'', PStr PROMPT_PLACEHOLDER)]),
      (''3'', node ''TextEncodeQwenImageEditPlus''
         [(''clip'', ref ''76'' 0),
          (''vae'', ref ''22'' 0),
          (''image1'', ref ''39'' 0),
          (''text'', PStr [])]),
      (''2'', node ''ModelSamplingAuraFlow''
         [(''model'', ref ''20'' 0),
          (''shift'', PInt 3)]),
      (''1'', node ''CFGNorm''
         [(''model'', ref ''2'' 0),
          (''strength'', PInt 1)]),
      (''14'', node ''KSampler''
         [(''model'', ref ''1'' 0),
          (''positive'', ref ''115'' 0),
          (''negative'', ref ''3'' 0),
          (''latent_image'', ref ''10'' 0),
          (''seed'', PStr SEED_PLACEHOLDER),
          (''control_after_generate'', PStr ''randomize''),
          (''steps'', PStr STEPS_PLACEHOLDER),
          (''cfg'', PStr CFG_PLACEHOLDER),
          (''sampler_name'', PStr ''euler''),
          (''scheduler'', PStr ''simple''),
          (''denoise'', PFloat 1)]),
      (''12'', node ''VAEDecode''
         [(''samples'', ref ''14'' 0),
          (''vae'', ref ''22'' 0)]),
      (''80'', node ''SaveImage''
         [(''images'', ref ''12'' 0),
          (''filename_prefix'', PStr OUTPUT_PREFIX_PLACEHOLDER)]) ]"

section \<open>Parameter injection (workflow_executor.py)\<close>

text \<open>
  The seed block of \<open>inject_workflow_parameters\<close>: an absent seed is drawn at random, a
  string is parsed when it is all digits and replaced by a random draw otherwise, and
  any other value is taken as it is.
\<close>

fun seed_value :: "nat \<Rightarrow> pyval \<Rightarrow> pyval" where
  "seed_value r PNone = PInt (randint r 0 (2 ^ 63 - 1))"
| "seed_value r (PStr s) =
     (if isdigit s then PInt (int_of_str s) else PInt (randint r 0 (2 ^ 63 - 1)))"
| "seed_value r v = v"

definition inject_input_image :: "pydict \<Rightarrow> string \<Rightarrow> py_error + pydict" where
  "inject_input_image workflow input_image =
     (if has_key workflow ''31''
      then set_input workflow ''31'' ''image'' (PStr input_image)
      else Inr workflow)"

definition inject_prompt :: "pydict \<Rightarrow> pyval \<Rightarrow> py_error + pydict" where
  "inject_prompt workflow prompt =
     (if has_key workflow ''115''
      then set_input workflow ''115'' ''text'' prompt
      else Inr workflow)"

definition inject_ksampler_params ::
    "pydict \<Rightarrow> pyval \<Rightarrow> pyval \<Rightarrow> pyval \<Rightarrow> py_error + pydict" where
  "inject_ksampler_params workflow steps cfg seed =
     (if has_key workflow ''14''
      then (case set_input workflow ''14'' ''steps'' steps of
              Inl e \<Rightarrow> Inl e
            | Inr w1 \<Rightarrow>
                (case set_input w1 ''14'' ''cfg'' cfg of
                   Inl e \<Rightarrow> Inl e
                 | Inr w2 \<Rightarrow> set_input w2 ''14'' ''seed'' seed))
      else Inr workflow)"

definition inject_output_prefix :: "pydict \<Rightarrow> string \<Rightarrow> py_error + pydict" where
  "inject_output_prefix workflow output_prefix =
     (if has_key workflow ''80''
      then set_input workflow ''80'' ''filename_prefix'' (PStr output_prefix)
      else Inr workflow)"

text \<open>
  \<open>copy.deepcopy\<close> is the identity on values; the four writes follow in the source's
  order, an exception of one of them ending the call.
\<close>

definition inject_workflow_parameters ::
    "nat \<Rightarrow> pydict \<Rightarrow> string \<Rightarrow> pyval \<Rightarrow> pyval \<Rightarrow> pyval \<Rightarrow> pyval \<Rightarrow> string
       \<Rightarrow> py_error + pydict" where
  "inject_workflow_parameters r workflow input_image prompt steps cfg seed output_prefix =
     (case inject_input_image workflow input_image of
        Inl e \<Rightarrow> Inl e
      | Inr w1 \<Rightarrow>
          (case inject_prompt w1 prompt of
             Inl e \<Rightarrow> Inl e
           | Inr w2 \<Rightarrow>
               (case inject_ksampler_params w2 steps cfg (seed_value r seed) of
                  Inl e \<Rightarrow> Inl e
                | Inr w3 \<Rightarrow> inject_output_prefix w3 output_prefix)))"

definition create_workflow ::
    "nat \<Rightarrow> string \<Rightarrow> pyval \<Rightarrow> pyval \<Rightarrow> pyval \<Rightarrow> pyval \<Rightarrow> string \<Rightarrow> py_error + pydict" where
  "create_workflow r input_image prompt steps cfg seed output_prefix =
     inject_workflow_parameters r get_workflow_template input_image prompt steps cfg seed
       output_prefix"


text \<open>The six places the injection writes: node id and input name.\<close>

definition designated_slots :: "(string \<times> string) list" where
  "designated_slots =
     [(''31'', ''image''), (''115'', ''text''), (''14'', ''steps''), (''14'', ''cfg''),
      (''14'', ''seed''), (''80'', ''filename_prefix'')]"


section \<open>Truthiness, formatting and \<open>dict.get\<close>\<close>

fun py_truthy :: "pyval \<Rightarrow> bool" where
  "py_truthy PNone = False"
| "py_truthy (PBool b) = b"
| "py_truthy (PInt i) = (i \<noteq> 0)"
| "py_truthy (PFloat x) = (x \<noteq> 0)"
| "py_truthy (PStr s) = (s \<noteq> [])"
| "py_truthy (PList xs) = (xs \<noteq> [])"
| "py_truthy (PDict d) = (d \<noteq> [])"

text \<open>\<open>d.get(k, dflt)\<close>.\<close>

definition dict_get :: "pydict \<Rightarrow> string \<Rightarrow> pyval \<Rightarrow> pyval" where
  "dict_get d k dflt = (case map_of d k of None \<Rightarrow> dflt | Some v \<Rightarrow> v)"

text \<open>
  \<open>str(v)\<close>, as an f-string formats a value.  The text of a float, a list or a dict is
  left to the parameter \<open>fmt\<close>.
\<close>

fun py_str :: "(pyval \<Rightarrow> string) \<Rightarrow> pyval \<Rightarrow> string" where
  "py_str fmt (PStr s) = s"
| "py_str fmt PNone = ''None''"
| "py_str fmt (PBool b) = (if b then ''True'' else ''False'')"
| "py_str fmt (PInt i) = str_int i"
| "py_str fmt v = fmt v"


text \<open>\<open>isinstance(v, int)\<close> and \<open>isinstance(v, (int, float))\<close>: a bool is an int.\<close>

fun isinstance_int :: "pyval \<Rightarrow> bool" where
  "isinstance_int (PInt i) = True"
| "isinstance_int (PBool b) = True"
| "isinstance_int v = False"

fun isinstance_number :: "pyval \<Rightarrow> bool" where
  "isinstance_number (PInt i) = True"
| "isinstance_number (PBool b) = True"
| "isinstance_number (PFloat x) = True"
| "isinstance_number v = False"

fun num_of :: "pyval \<Rightarrow> real" where
  "num_of (PInt i) = of_int i"
| "num_of (PBool b) = (if b then 1 else 0)"
| "num_of (PFloat x) = x"
| "num_of v = 0"

text \<open>The two range tests, shared by the validator and the batch endpoint.\<close>

definition steps_rejected :: "pyval \<Rightarrow> bool" where
  "steps_rejected steps =
     (if isinstance_int steps then num_of steps < 4 \<or> num_of steps > 8 else True)"

definition cfg_rejected :: "pyval \<Rightarrow> bool" where
  "cfg_rejected cfg =
     (if isinstance_number cfg then num_of cfg < 1 \<or> num_of cfg > 5 else True)"



section \<open>One job: submission and polling (comfyui_modal.py)\<close>

text \<open>
  What a request to the engine yields: a \<open>URLError\<close>, an \<open>HTTPError\<close> with its code and
  reason, some other exception, or a body.  The engine answers with a JSON object, so a
  body is a dict.
\<close>

datatype http_reply =
    URLError string
  | HTTPError nat string
  | Raised py_error
  | Body pydict

text \<open>
  The world one call of \<open>infer_single\<close> meets: whether the server is healthy; the
  client id drawn for the call; the exception, if any, of making the input directory, of
  decoding and writing the input image, and of writing the workflow file; the state of
  the random generator; the engine's reply to the submission of a graph, to the history
  request of round \<open>k\<close> of the polling loop, and to the image request of that round.
  The clock is read in whole milliseconds and never goes back: a round of the loop
  takes its one-second sleep and \<open>je_lag k\<close> more.
\<close>

record job_env =
  je_healthy :: bool
  je_client_id :: string
  je_input_dir :: "py_error option"
  je_save_input :: "pyval \<Rightarrow> py_error option"
  je_rand :: nat
  je_save_workflow :: "py_error option"
  je_submit :: "pydict \<Rightarrow> http_reply"
  je_history :: "nat \<Rightarrow> http_reply"
  je_lag :: "nat \<Rightarrow> nat"
  je_view :: "nat \<Rightarrow> pyval \<Rightarrow> pyval \<Rightarrow> py_error + string"

fun as_dict :: "pyval \<Rightarrow> pydict option" where
  "as_dict (PDict d) = Some d"
| "as_dict v = None"

text \<open>
  \<open>history[prompt_id]\<close> under the guard \<open>prompt_id in history\<close>: only a string can be a
  key of a JSON object.
\<close>

fun history_entry :: "pydict \<Rightarrow> pyval \<Rightarrow> pyval option" where
  "history_entry history (PStr pid) = map_of history pid"
| "history_entry history v = None"

text \<open>
  \<open>history[prompt_id].get("status", {}).get("status_str")\<close>; \<open>None\<close> when a \<open>get\<close> meets
  a value that is not a dict and raises.
\<close>

definition entry_status_str :: "pyval \<Rightarrow> pyval option" where
  "entry_status_str e =
     (case as_dict e of
        None \<Rightarrow> None
      | Some entry \<Rightarrow>
          (case as_dict (dict_get entry ''status'' (PDict [])) of
             None \<Rightarrow> None
           | Some status \<Rightarrow> Some (dict_get status ''status_str'' PNone)))"

text \<open>\<open>outputs["80"]\<close> when \<open>outputs\<close> is a dict that has the key.\<close>

definition entry_output_80 :: "pyval \<Rightarrow> pyval option" where
  "entry_output_80 e =
     (case as_dict e of
        None \<Rightarrow> None
      | Some entry \<Rightarrow>
          (case as_dict (dict_get entry ''outputs'' (PDict [])) of
             None \<Rightarrow> None
           | Some outputs \<Rightarrow> map_of outputs ''80''))"

text \<open>\<open>outputs["80"].get("images", [])[0]\<close>, when it is there and is a dict.\<close>

definition first_image :: "pyval \<Rightarrow> pydict option" where
  "first_image out80 =
     (case as_dict out80 of
        None \<Rightarrow> None
      | Some d \<Rightarrow>
          (case dict_get d ''images'' (PList []) of
             PList (PDict image_info # rest) \<Rightarrow> Some image_info
           | v \<Rightarrow> None))"

text \<open>
  One round of the polling loop, up to its sleep: \<open>Some\<close> the image when the round
  returns it, \<open>None\<close> when the round ends at the sleep.  Every exception raised inside
  the \<open>try\<close> is caught there, the \<open>RuntimeError\<close> of an error status included, and the
  loop goes on.
\<close>

definition poll_once :: "job_env \<Rightarrow> pyval \<Rightarrow> nat \<Rightarrow> string option" where
  "poll_once env prompt_id k =
     (case je_history env k of
        Body history \<Rightarrow>
          (case history_entry history prompt_id of
             None \<Rightarrow> None
           | Some e \<Rightarrow>
               (case entry_status_str e of
                  None \<Rightarrow> None
                | Some s \<Rightarrow>
                    if s = PStr ''error'' then None
                    else (case entry_output_80 e of
                            None \<Rightarrow> None
                          | Some out80 \<Rightarrow>
                              (case first_image out80 of
                                 None \<Rightarrow> None
                               | Some image_info \<Rightarrow>
                                   (case je_view env k
                                           (dict_get image_info ''filename'' PNone)
                                           (dict_get image_info ''subfolder'' (PStr [])) of
                                      Inl err \<Rightarrow> None
                                    | Inr bytes \<Rightarrow> Some bytes)))))
      | reply \<Rightarrow> None)"

text \<open>
  What a round of the loop can observe of a terminal state: an error status of the job,
  or an output of the save node "80".
\<close>

definition reports_error :: "pyval \<Rightarrow> http_reply \<Rightarrow> bool" where
  "reports_error prompt_id reply =
     (case reply of
        Body history \<Rightarrow>
          (case history_entry history prompt_id of
             None \<Rightarrow> False
           | Some e \<Rightarrow> entry_status_str e = Some (PStr ''error''))
      | other \<Rightarrow> False)"

definition reports_output :: "pyval \<Rightarrow> http_reply \<Rightarrow> bool" where
  "reports_output prompt_id reply =
     (case reply of
        Body history \<Rightarrow>
          (case history_entry history prompt_id of
             None \<Rightarrow> False
           | Some e \<Rightarrow> entry_output_80 e \<noteq> None)
      | other \<Rightarrow> False)"

text \<open>The clock, in milliseconds since the start of the loop, when round \<open>k\<close> begins.\<close>

fun round_start :: "job_env \<Rightarrow> nat \<Rightarrow> nat" where
  "round_start env 0 = 0"
| "round_start env (Suc k) = round_start env k + 1000 + je_lag env k"

definition timeout_text :: "nat \<Rightarrow> string" where
  "timeout_text timeout =
     ''Workflow execution timed out after '' @ str_nat timeout @ '' seconds''"

text \<open>
  The loop \<open>while time.time() - start_time < timeout\<close>: \<open>k\<close> counts the rounds and
  \<open>elapsed\<close> is the clock in milliseconds since the start.
\<close>

function poll_loop :: "job_env \<Rightarrow> pyval \<Rightarrow> nat \<Rightarrow> nat \<Rightarrow> nat \<Rightarrow> py_error + string" where
  "poll_loop env prompt_id timeout k elapsed =
     (if elapsed < timeout * 1000
      then (case poll_once env prompt_id k of
              Some bytes \<Rightarrow> Inr bytes
            | None \<Rightarrow> poll_loop env prompt_id timeout (Suc k) (elapsed + 1000 + je_lag env k))
      else Inl (TimeoutError (timeout_text timeout)))"
  by pat_completeness auto
termination
  by (relation "measure (\<lambda>(env, prompt_id, timeout, k, elapsed). timeout * 1000 - elapsed)") auto

definition http_error_text :: "nat \<Rightarrow> string \<Rightarrow> string" where
  "http_error_text code reason = ''HTTP Error '' @ str_nat code @ '': '' @ reason"

text \<open>
  \<open>_execute_workflow_via_api\<close>.  An \<open>HTTPError\<close> is a \<open>URLError\<close>, so the first handler
  takes both; any other exception of the submission leaves the function as it is.
\<close>

definition execute_workflow_via_api ::
    "(pyval \<Rightarrow> string) \<Rightarrow> job_env \<Rightarrow> pydict \<Rightarrow> nat \<Rightarrow> py_error + string" where
  "execute_workflow_via_api fmt env workflow timeout =
     (case je_submit env workflow of
        URLError m \<Rightarrow> Inl (RuntimeError (''Failed to submit workflow to ComfyUI: '' @ m))
      | HTTPError code reason \<Rightarrow>
          Inl (RuntimeError (''Failed to submit workflow to ComfyUI: ''
                               @ http_error_text code reason))
      | Raised e \<Rightarrow> Inl e
      | Body result \<Rightarrow>
          if has_key result ''error''
          then Inl (RuntimeError (''ComfyUI rejected workflow: ''
                                    @ py_str fmt (dict_get result ''error'' PNone)))
          else poll_loop env (dict_get result ''prompt_id'' PNone) timeout 0 0)"

text \<open>
  \<open>infer_single\<close>, with the graph it posted to the engine, if it came that far.  A
  \<open>TimeoutError\<close> of the execution is raised again as it is, any other exception as a
  \<open>RuntimeError\<close>.
\<close>

definition reraise :: "py_error \<Rightarrow> py_error" where
  "reraise e =
     (case e of
        TimeoutError m \<Rightarrow> TimeoutError m
      | other \<Rightarrow> RuntimeError (''Workflow execution failed: '' @ error_text other))"

definition infer_single ::
    "(pyval \<Rightarrow> string) \<Rightarrow> job_env \<Rightarrow> pyval \<Rightarrow> pyval \<Rightarrow> pyval \<Rightarrow> pyval \<Rightarrow> pyval
       \<Rightarrow> string \<Rightarrow> (py_error + string) \<times> pydict option" where
  "infer_single fmt env input_image_base64 prompt steps cfg seed output_prefix =
     (if \<not> je_healthy env
      then (Inl (RuntimeError ''ComfyUI server is not healthy''), None)
      else (case je_input_dir env of
              Some e \<Rightarrow> (Inl e, None)
            | None \<Rightarrow>
          (case je_save_input env input_image_base64 of
              Some e \<Rightarrow> (Inl (ValueError (''Failed to save input image: '' @ error_text e)), None)
            | None \<Rightarrow>
          (case create_workflow (je_rand env) (''input_'' @ je_client_id env @ ''.png'')
                  prompt steps cfg seed (output_prefix @ ''_'' @ je_client_id env) of
              Inl e \<Rightarrow> (Inl (RuntimeError (''Failed to create workflow: '' @ error_text e)), None)
            | Inr workflow \<Rightarrow>
          (case je_save_workflow env of
              Some e \<Rightarrow> (Inl e, None)
            | None \<Rightarrow>
          (case execute_workflow_via_api fmt env workflow 120 of
              Inl e \<Rightarrow> (Inl (reraise e), Some workflow)
            | Inr output_image \<Rightarrow> (Inr output_image, Some workflow)))))))"

section \<open>The batch endpoint (comfyui_modal.py)\<close>

record response =
  status_code :: nat
  content :: pydict
  headers :: "(string \<times> string) list"

definition error_response :: "nat \<Rightarrow> string \<Rightarrow> string \<Rightarrow> response" where
  "error_response status code message =
     \<lparr>status_code = status,
      content = [(''error'', PStr code), (''message'', PStr message)],
      headers = []\<rparr>"

text \<open>The fixed texts of the endpoint that are not ASCII, as their UTF-8 bytes.\<close>

definition text_unavailable :: string where
  "text_unavailable = [
      CHR 0x41, CHR 0x49, CHR 0x20, CHR 0xE6, CHR 0x9C, CHR 0x8D, CHR 0xE5, CHR 0x8A,
      CHR 0xA1, CHR 0xE6, CHR 0x9A, CHR 0x82, CHR 0xE6, CHR 0x97, CHR 0xB6, CHR 0xE4,
      CHR 0xB8, CHR 0x8D, CHR 0xE5, CHR 0x8F, CHR 0xAF, CHR 0xE7, CHR 0x94, CHR 0xA8,
      CHR 0xEF, CHR 0xBC, CHR 0x8C, CHR 0xE8, CHR 0xAF, CHR 0xB7, CHR 0xE7, CHR 0xA8,
      CHR 0x8D, CHR 0xE5, CHR 0x90, CHR 0x8E, CHR 0xE9, CHR 0x87, CHR 0x8D, CHR 0xE8,
      CHR 0xAF, CHR 0x95]"

definition text_invalid_image :: string where
  "text_invalid_image = [
      CHR 0xE6, CHR 0x97, CHR 0xA0, CHR 0xE6, CHR 0x95, CHR 0x88, CHR 0xE7, CHR 0x9A,
      CHR 0x84, CHR 0x20, CHR 0x62, CHR 0x61, CHR 0x73, CHR 0x65, CHR 0x36, CHR 0x34,
      CHR 0x20, CHR 0xE5, CHR 0x9B, CHR 0xBE, CHR 0xE7, CHR 0x89, CHR 0x87, CHR 0xE6,
      CHR 0x95, CHR 0xB0, CHR 0xE6, CHR 0x8D, CHR 0xAE, CHR 0x3A, CHR 0x20]"

definition text_view :: string where
  "text_view = [
      CHR 0xE8, CHR 0xA7, CHR 0x86, CHR 0xE8, CHR 0xA7, CHR 0x92]"

definition text_view_open :: string where
  "text_view_open = [
      CHR 0xE8, CHR 0xA7, CHR 0x86, CHR 0xE8, CHR 0xA7, CHR 0x92, CHR 0x20, CHR 0x27]"

definition text_timed_out :: string where
  "text_timed_out = [
      CHR 0x27, CHR 0x20, CHR 0xE7, CHR 0x9A, CHR 0x84, CHR 0xE7, CHR 0x94, CHR 0x9F,
      CHR 0xE6, CHR 0x88, CHR 0x90, CHR 0xE8, CHR 0xB6, CHR 0x85, CHR 0xE6, CHR 0x97,
      CHR 0xB6]"

definition text_failed :: string where
  "text_failed = [
      CHR 0x27, CHR 0x20, CHR 0xE7, CHR 0x9A, CHR 0x84, CHR 0xE5, CHR 0x9B, CHR 0xBE,
      CHR 0xE5, CHR 0x83, CHR 0x8F, CHR 0xE7, CHR 0x94, CHR 0x9F, CHR 0xE6, CHR 0x88,
      CHR 0x90, CHR 0xE5, CHR 0xA4, CHR 0xB1, CHR 0xE8, CHR 0xB4, CHR 0xA5, CHR 0x3A,
      CHR 0x20]"

definition text_unknown :: string where
  "text_unknown = [
      CHR 0x27, CHR 0x20, CHR 0xE7, CHR 0x94, CHR 0x9F, CHR 0xE6, CHR 0x88, CHR 0x90,
      CHR 0xE6, CHR 0x97, CHR 0xB6, CHR 0xE5, CHR 0x8F, CHR 0x91, CHR 0xE7, CHR 0x94,
      CHR 0x9F, CHR 0xE6, CHR 0x9C, CHR 0xAA, CHR 0xE7, CHR 0x9F, CHR 0xA5, CHR 0xE9,
      CHR 0x94, CHR 0x99, CHR 0xE8, CHR 0xAF, CHR 0xAF, CHR 0x3A, CHR 0x20]"

text \<open>
  The world one call of \<open>generate\<close> meets: the health of the server, base64 in both
  directions, the world of the job of each perspective, and the total time as rounded
  for the reply.
\<close>

record gen_env =
  ge_healthy :: bool
  ge_b64decode :: "pyval \<Rightarrow> py_error + string"
  ge_b64encode :: "string \<Rightarrow> string"
  ge_job :: "nat \<Rightarrow> job_env"
  ge_total_time :: real

text \<open>The exception of the image check, if any.\<close>

definition image_error :: "gen_env \<Rightarrow> pyval \<Rightarrow> py_error option" where
  "image_error env image_base64 =
     (case ge_b64decode env image_base64 of
        Inl e \<Rightarrow> Some e
      | Inr image_data \<Rightarrow>
          if length image_data < 100 then Some (ValueError ''Image data too small'')
          else None)"

text \<open>What a \<open>for\<close> loop runs over: a list gives its items, a string its characters, a
  dict its keys; anything else is not iterable.\<close>

fun iter_items :: "pyval \<Rightarrow> py_error + pyval list" where
  "iter_items (PList xs) = Inr xs"
| "iter_items (PStr s) = Inr (map (\<lambda>c. PStr [c]) s)"
| "iter_items (PDict d) = Inr (map (\<lambda>kv. PStr (fst kv)) d)"
| "iter_items v = Inl (TypeError ''object is not iterable'')"

text \<open>The loop that checks the format of each perspective.\<close>

fun check_perspectives :: "nat \<Rightarrow> pyval list \<Rightarrow> response option" where
  "check_perspectives i [] = None"
| "check_perspectives i (PDict p # ps) =
     (if \<not> py_truthy (dict_get p ''prompt'' PNone)
      then Some (error_response 400 ''validation_error''
                   (''perspective['' @ str_nat i @ ''].prompt is required''))
      else check_perspectives (Suc i) ps)"
| "check_perspectives i (v # ps) =
     Some (error_response 400 ''validation_error''
             (''perspective['' @ str_nat i @ ''] must be an object''))"

text \<open>
  The checks of the server, the image and the perspectives, in the source's order:
  \<open>Some\<close> the reply (or the exception) of the first check that fails, \<open>None\<close> when
  all pass.
\<close>

definition check_image_and_perspectives ::
    "gen_env \<Rightarrow> pydict \<Rightarrow> (py_error + response) option" where
  "check_image_and_perspectives env request =
     (if \<not> ge_healthy env
      then Some (Inr (error_response 503 ''service_unavailable'' text_unavailable))
      else if \<not> py_truthy (dict_get request ''image'' PNone)
      then Some (Inr (error_response 400 ''validation_error'' ''image is required''))
      else (case image_error env (dict_get request ''image'' PNone) of
              Some e \<Rightarrow>
                Some (Inr (error_response 400 ''invalid_image''
                             (text_invalid_image @ error_text e)))
            | None \<Rightarrow>
                if \<not> py_truthy (dict_get request ''perspectives'' (PList []))
                then Some (Inr (error_response 400 ''validation_error''
                                  ''at least one perspective is required''))
                else (case iter_items (dict_get request ''perspectives'' (PList [])) of
                        Inl e \<Rightarrow> Some (Inl e)
                      | Inr perspectives \<Rightarrow>
                          (case check_perspectives 0 perspectives of
                             Some r \<Rightarrow> Some (Inr r)
                           | None \<Rightarrow> None))))"

text \<open>The checks of \<open>steps\<close> and \<open>cfg_scale\<close>, which come next.\<close>

definition check_params :: "pydict \<Rightarrow> response option" where
  "check_params request =
     (if steps_rejected (dict_get request ''steps'' (PInt 8))
      then Some (error_response 400 ''invalid_params''
                   ''steps must be an integer between 4 and 8'')
      else if cfg_rejected (dict_get request ''cfg_scale'' (PFloat 3))
      then Some (error_response 400 ''invalid_params''
                   ''cfg_scale must be a number between 1.0 and 5.0'')
      else None)"

text \<open>\<open>prompt[:50]\<close> is defined on a string and on a list.\<close>

fun sliceable :: "pyval \<Rightarrow> bool" where
  "sliceable (PStr s) = True"
| "sliceable (PList xs) = True"
| "sliceable v = False"

text \<open>The id, the name and the prompt of perspective \<open>i\<close>, with their defaults.\<close>

definition perspective_id :: "nat \<Rightarrow> pydict \<Rightarrow> pyval" where
  "perspective_id i perspective = dict_get perspective ''id'' (PStr (str_nat i))"

definition perspective_name :: "nat \<Rightarrow> pydict \<Rightarrow> pyval" where
  "perspective_name i perspective =
     dict_get perspective ''name'' (PStr (text_view @ str_nat (i + 1)))"

definition perspective_prompt :: "pydict \<Rightarrow> pyval" where
  "perspective_prompt perspective = dict_get perspective ''prompt'' (PStr [])"

text \<open>The call \<open>self.infer_single.local(...)\<close> for perspective \<open>i\<close>.\<close>

definition run_job ::
    "(pyval \<Rightarrow> string) \<Rightarrow> gen_env \<Rightarrow> pyval \<Rightarrow> pyval \<Rightarrow> pyval \<Rightarrow> pyval \<Rightarrow> nat \<Rightarrow> pydict
       \<Rightarrow> (py_error + string) \<times> pydict option" where
  "run_job fmt env image_base64 steps cfg_scale seed i perspective =
     infer_single fmt (ge_job env i) image_base64 (perspective_prompt perspective) steps
       cfg_scale seed (''qwen_'' @ py_str fmt (perspective_id i perspective))"

definition image_entry :: "gen_env \<Rightarrow> pyval \<Rightarrow> pyval \<Rightarrow> string \<Rightarrow> pyval \<Rightarrow> pyval" where
  "image_entry env pid pname img_bytes seed =
     PDict [(''perspective_id'', pid),
            (''perspective_name'', pname),
            (''image'', PStr (ge_b64encode env img_bytes)),
            (''seed_used'', if py_truthy seed then seed else PStr ''random'')]"

text \<open>The three handlers of the generation loop.\<close>

definition failure_response :: "(pyval \<Rightarrow> string) \<Rightarrow> pyval \<Rightarrow> py_error \<Rightarrow> response" where
  "failure_response fmt pname e =
     (case e of
        TimeoutError m \<Rightarrow>
          error_response 504 ''timeout'' (text_view_open @ py_str fmt pname @ text_timed_out)
      | RuntimeError m \<Rightarrow>
          error_response 500 ''generation_error''
            (text_view_open @ py_str fmt pname @ text_failed @ m)
      | other \<Rightarrow>
          error_response 500 ''generation_error''
            (text_view_open @ py_str fmt pname @ text_unknown @ error_text other))"

definition success_response :: "gen_env \<Rightarrow> pyval \<Rightarrow> pyval list \<Rightarrow> response" where
  "success_response env image_base64 generated_images =
     \<lparr>status_code = 200,
      content = [(''images'', PList generated_images),
                 (''total_time'', PFloat (ge_total_time env)),
                 (''original_image'', image_base64)],
      headers = [(''Access-Control-Allow-Origin'', ''*''),
                 (''Access-Control-Allow-Methods'', ''POST, OPTIONS''),
                 (''Access-Control-Allow-Headers'', ''Content-Type'')]\<rparr>"

text \<open>
  A job as the endpoint logs it: the index of the perspective and the graph posted to
  the engine, if the job came to post one.
\<close>

type_synonym job_log = "(nat \<times> pydict option) list"

text \<open>
  The generation loop, from perspective \<open>i\<close> on, with the images made and the jobs run
  so far.  The result is the reply, or the exception that leaves \<open>generate\<close>.
\<close>

fun generate_loop ::
    "(pyval \<Rightarrow> string) \<Rightarrow> gen_env \<Rightarrow> pyval \<Rightarrow> pyval \<Rightarrow> pyval \<Rightarrow> pyval \<Rightarrow> nat \<Rightarrow> pyval list
       \<Rightarrow> pyval list \<Rightarrow> job_log \<Rightarrow> (py_error + response) \<times> job_log" where
  "generate_loop fmt env image_base64 steps cfg_scale seed i [] generated_images jobs =
     (Inr (success_response env image_base64 generated_images), jobs)"
| "generate_loop fmt env image_base64 steps cfg_scale seed i (PDict perspective # ps)
       generated_images jobs =
     (if \<not> sliceable (perspective_prompt perspective)
      then (Inl (TypeError ''object is not subscriptable''), jobs)
      else (case run_job fmt env image_base64 steps cfg_scale seed i perspective of
              (Inl e, posted) \<Rightarrow>
                (Inr (failure_response fmt (perspective_name i perspective) e),
                 jobs @ [(i, posted)])
            | (Inr img_bytes, posted) \<Rightarrow>
                generate_loop fmt env image_base64 steps cfg_scale seed (Suc i) ps
                  (generated_images
                     @ [image_entry env (perspective_id i perspective)
                          (perspective_name i perspective) img_bytes seed])
                  (jobs @ [(i, posted)])))"
| "generate_loop fmt env image_base64 steps cfg_scale seed i (v # ps) generated_images jobs =
     (Inl (AttributeError ''object has no attribute get''), jobs)"

text \<open>
  \<open>generate\<close>: the checks, then the loop over the perspectives.  Beside the reply it
  gives the jobs it ran.
\<close>

definition generate ::
    "(pyval \<Rightarrow> string) \<Rightarrow> gen_env \<Rightarrow> pydict \<Rightarrow> (py_error + response) \<times> job_log" where
  "generate fmt env request =
     (case check_image_and_perspectives env request of
        Some r \<Rightarrow> (r, [])
      | None \<Rightarrow>
          (case check_params request of
             Some r \<Rightarrow> (Inr r, [])
           | None \<Rightarrow>
               (case iter_items (dict_get request ''perspectives'' (PList [])) of
                  Inl e \<Rightarrow> (Inl e, [])
                | Inr perspectives \<Rightarrow>
                    generate_loop fmt env (dict_get request ''image'' PNone)
                      (dict_get request ''steps'' (PInt 8))
                      (dict_get request ''cfg_scale'' (PFloat 3))
                      (dict_get request ''seed'' PNone) 0 perspectives [] [])))"

text \<open>What a reply and a log of jobs show: the images, their \<open>seed_used\<close>, and the seed
  in each posted graph.\<close>

definition response_images :: "response \<Rightarrow> pyval list" where
  "response_images r = (case map_of (content r) ''images'' of Some (PList xs) \<Rightarrow> xs | other \<Rightarrow> [])"



section \<open>Worlds and requests of the examples\<close>

definition history_done :: pydict where
  "history_done =
     [(''p1'', PDict
         [(''status'', PDict [(''status_str'', PStr ''success'')]),
          (''outputs'', PDict
             [(''80'', PDict
                 [(''images'', PList
                     [PDict [(''filename'', PStr ''out.png''),
                             (''subfolder'', PStr [])]])])])])]"

text \<open>A job that the engine finishes at the first poll, one that it never finishes, and
  one whose submission the engine refuses.\<close>

definition job_done :: job_env where
  "job_done =
     \<lparr>je_healthy = True, je_client_id = ''0a1b2c3d'', je_input_dir = None,
      je_save_input = (\<lambda>image. None), je_rand = 7, je_save_workflow = None,
      je_submit = (\<lambda>workflow. Body [(''prompt_id'', PStr ''p1'')]),
      je_history = (\<lambda>k. Body history_done), je_lag = (\<lambda>k. 0),
      je_view = (\<lambda>k filename subfolder. Inr ''PNG'')\<rparr>"

definition job_pending :: job_env where
  "job_pending = job_done\<lparr>je_history := (\<lambda>k. Body [])\<rparr>"


definition world :: "(nat \<Rightarrow> job_env) \<Rightarrow> gen_env" where
  "world jobs =
     \<lparr>ge_healthy = True, ge_b64decode = (\<lambda>image. Inr (replicate 100 (CHR ''x''))),
      ge_b64encode = (\<lambda>bytes. bytes), ge_job = jobs, ge_total_time = 1\<rparr>"



definition second_pending :: "nat \<Rightarrow> job_env" where
  "second_pending i = (if i = 1 then job_pending else job_done)"

text \<open>A formatter for the values whose text is left open.\<close>

definition no_text :: "pyval \<Rightarrow> string" where
  "no_text v = []"

definition view :: "string \<Rightarrow> pyval" where
  "view name =
     PDict [(''id'', PStr name), (''name'', PStr name), (''prompt'', PStr (''rotate '' @ name))]"

definition batch_request :: "pyval list \<Rightarrow> pyval \<Rightarrow> pyval \<Rightarrow> pydict" where
  "batch_request perspectives steps seed =
     [(''image'', PStr ''aGVsbG8=''), (''perspectives'', PList perspectives),
      (''steps'', steps), (''cfg_scale'', PFloat 3), (''seed'', seed)]"

section \<open>Properties of the injection\<close>


subsection \<open>Writing one input\<close>

lemma has_key_iff: "has_key w n \<longleftrightarrow> n \<in> set (map fst w)"
  by (simp add: has_key_def map_of_eq_None_iff)

lemma set_input_Inr_iff:
  "set_input w n k v = Inr w' \<longleftrightarrow>
     (\<exists>nd ins. map_of w n = Some (PDict nd) \<and> map_of nd ''inputs'' = Some (PDict ins) \<and>
        w' = AList.update n (PDict (AList.update ''inputs'' (PDict (AList.update k v ins)) nd)) w)"
  by (auto simp: set_input_def split: option.splits pyval.splits)

lemma inputs_of_Some_iff:
  "inputs_of w n = Some ins \<longleftrightarrow>
     (\<exists>nd. map_of w n = Some (PDict nd) \<and> map_of nd ''inputs'' = Some (PDict ins))"
  by (auto simp: inputs_of_def split: option.splits pyval.splits)

lemma input_of_inputs_of:
  "input_of w n k = (case inputs_of w n of None \<Rightarrow> None | Some ins \<Rightarrow> map_of ins k)"
  by (simp add: input_of_def inputs_of_def split: option.splits pyval.splits)

lemma set_input_total:
  assumes "inputs_of w n = Some ins"
  shows "\<exists>w'. set_input w n k v = Inr w'"
  using assms unfolding inputs_of_Some_iff set_input_Inr_iff by blast

lemma inputs_of_set_input:
  assumes "set_input w n k v = Inr w'"
  shows "inputs_of w' n' =
           (if n' = n then map_option (AList.update k v) (inputs_of w n) else inputs_of w n')"
proof -
  from assms obtain nd ins where nd: "map_of w n = Some (PDict nd)"
    and ins: "map_of nd ''inputs'' = Some (PDict ins)"
    and w': "w' = AList.update n (PDict (AList.update ''inputs'' (PDict (AList.update k v ins)) nd)) w"
    unfolding set_input_Inr_iff by blast
  show ?thesis
  proof (cases "n' = n")
    case True
    then show ?thesis by (simp add: inputs_of_def w' update_conv' nd ins)
  next
    case False
    then show ?thesis by (simp add: inputs_of_def w' update_conv')
  qed
qed

lemma input_of_set_input:
  assumes "set_input w n k v = Inr w'"
  shows "input_of w' n' k' = (if n' = n \<and> k' = k then Some v else input_of w n' k')"
proof -
  from assms obtain ins where "inputs_of w n = Some ins"
    unfolding set_input_Inr_iff inputs_of_Some_iff by blast
  then show ?thesis
    by (simp add: input_of_inputs_of inputs_of_set_input [OF assms] update_conv')
qed

lemma field_of_set_input:
  assumes "set_input w n k v = Inr w'" and "f \<noteq> ''inputs''"
  shows "field_of w' n' f = field_of w n' f"
proof -
  from assms obtain nd ins where nd: "map_of w n = Some (PDict nd)"
    and w': "w' = AList.update n (PDict (AList.update ''inputs'' (PDict (AList.update k v ins)) nd)) w"
    unfolding set_input_Inr_iff by blast
  show ?thesis
  proof (cases "n' = n")
    case True
    then show ?thesis using assms(2) by (simp add: field_of_def w' update_conv' nd)
  next
    case False
    then show ?thesis by (simp add: field_of_def w' update_conv')
  qed
qed

lemma keys_set_input:
  assumes "set_input w n k v = Inr w'"
  shows "map fst w' = map fst w"
proof -
  from assms obtain nd ins where nd: "map_of w n = Some (PDict nd)"
    and w': "w' = AList.update n (PDict (AList.update ''inputs'' (PDict (AList.update k v ins)) nd)) w"
    unfolding set_input_Inr_iff by blast
  from nd have "(n, PDict nd) \<in> set w" by (rule map_of_SomeD)
  then have "n \<in> fst ` set w" by force
  then show ?thesis by (simp add: w' update_keys)
qed

lemma same_shape_refl: "same_shape w w"
  by (simp add: same_shape_def)

lemma same_shape_trans: "same_shape a b \<Longrightarrow> same_shape b c \<Longrightarrow> same_shape a c"
  by (simp add: same_shape_def)

lemma same_shape_set_input:
  assumes "set_input w n k v = Inr w'"
  shows "same_shape w w'"
  unfolding same_shape_def
  by (simp add: keys_set_input [OF assms] inputs_of_set_input [OF assms]
      field_of_set_input [OF assms])

lemma same_shape_has_key: "same_shape w w' \<Longrightarrow> has_key w' n = has_key w n"
  by (simp add: same_shape_def has_key_iff)




subsection \<open>The four writes\<close>

lemma inject_input_image_shape:
  "inject_input_image w img = Inr w' \<Longrightarrow> same_shape w w'"
  by (auto simp: inject_input_image_def same_shape_refl same_shape_set_input split: if_splits)

lemma inject_prompt_shape:
  "inject_prompt w p = Inr w' \<Longrightarrow> same_shape w w'"
  by (auto simp: inject_prompt_def same_shape_refl same_shape_set_input split: if_splits)

lemma inject_output_prefix_shape:
  "inject_output_prefix w pre = Inr w' \<Longrightarrow> same_shape w w'"
  by (auto simp: inject_output_prefix_def same_shape_refl same_shape_set_input split: if_splits)

lemma inject_ksampler_params_shape:
  assumes "inject_ksampler_params w st cfg sd = Inr w'"
  shows "same_shape w w'"
proof (cases "has_key w ''14''")
  case False
  with assms show ?thesis by (simp add: inject_ksampler_params_def same_shape_refl)
next
  case True
  with assms obtain w1 w2 where 1: "set_input w ''14'' ''steps'' st = Inr w1"
    and 2: "set_input w1 ''14'' ''cfg'' cfg = Inr w2"
    and 3: "set_input w2 ''14'' ''seed'' sd = Inr w'"
    by (auto simp: inject_ksampler_params_def split: sum.splits)
  show ?thesis
    by (rule same_shape_trans [OF same_shape_trans [OF same_shape_set_input [OF 1]
          same_shape_set_input [OF 2]] same_shape_set_input [OF 3]])
qed

lemma inject_input_image_input:
  "inject_input_image w img = Inr w' \<Longrightarrow>
     input_of w' n k =
       (if has_key w ''31'' \<and> n = ''31'' \<and> k = ''image'' then Some (PStr img)
        else input_of w n k)"
  by (auto simp: inject_input_image_def input_of_set_input split: if_splits)

lemma inject_prompt_input:
  "inject_prompt w p = Inr w' \<Longrightarrow>
     input_of w' n k =
       (if has_key w ''115'' \<and> n = ''115'' \<and> k = ''text'' then Some p
        else input_of w n k)"
  by (auto simp: inject_prompt_def input_of_set_input split: if_splits)

lemma inject_output_prefix_input:
  "inject_output_prefix w pre = Inr w' \<Longrightarrow>
     input_of w' n k =
       (if has_key w ''80'' \<and> n = ''80'' \<and> k = ''filename_prefix'' then Some (PStr pre)
        else input_of w n k)"
  by (auto simp: inject_output_prefix_def input_of_set_input split: if_splits)

lemma inject_ksampler_params_input:
  assumes "inject_ksampler_params w st cfg sd = Inr w'"
  shows "input_of w' n k =
           (if has_key w ''14'' \<and> n = ''14'' \<and> k = ''seed'' then Some sd
            else if has_key w ''14'' \<and> n = ''14'' \<and> k = ''cfg'' then Some cfg
            else if has_key w ''14'' \<and> n = ''14'' \<and> k = ''steps'' then Some st
            else input_of w n k)"
proof (cases "has_key w ''14''")
  case False
  with assms show ?thesis by (simp add: inject_ksampler_params_def)
next
  case True
  with assms obtain w1 w2 where 1: "set_input w ''14'' ''steps'' st = Inr w1"
    and 2: "set_input w1 ''14'' ''cfg'' cfg = Inr w2"
    and 3: "set_input w2 ''14'' ''seed'' sd = Inr w'"
    by (auto simp: inject_ksampler_params_def split: sum.splits)
  show ?thesis
    using True
    by (simp add: input_of_set_input [OF 1] input_of_set_input [OF 2] input_of_set_input [OF 3])
qed

subsection \<open>The whole injection\<close>

lemma inject_steps:
  assumes "inject_workflow_parameters r w img p st cfg sd pre = Inr g"
  obtains w1 w2 w3 where "inject_input_image w img = Inr w1"
    and "inject_prompt w1 p = Inr w2"
    and "inject_ksampler_params w2 st cfg (seed_value r sd) = Inr w3"
    and "inject_output_prefix w3 pre = Inr g"
  using assms by (auto simp: inject_workflow_parameters_def split: sum.splits)

lemma inject_shape:
  assumes "inject_workflow_parameters r w img p st cfg sd pre = Inr g"
  shows "same_shape w g"
proof -
  from assms obtain w1 w2 w3 where 1: "inject_input_image w img = Inr w1"
    and 2: "inject_prompt w1 p = Inr w2"
    and 3: "inject_ksampler_params w2 st cfg (seed_value r sd) = Inr w3"
    and 4: "inject_output_prefix w3 pre = Inr g"
    by (rule inject_steps)
  have "same_shape w w2"
    by (rule same_shape_trans [OF inject_input_image_shape [OF 1] inject_prompt_shape [OF 2]])
  moreover have "same_shape w2 g"
    by (rule same_shape_trans [OF inject_ksampler_params_shape [OF 3]
          inject_output_prefix_shape [OF 4]])
  ultimately show ?thesis by (rule same_shape_trans)
qed

lemma inject_input:
  assumes "inject_workflow_parameters r w img p st cfg sd pre = Inr g"
  shows "input_of g n k =
           (if has_key w n \<and> n = ''80'' \<and> k = ''filename_prefix'' then Some (PStr pre)
            else if has_key w n \<and> n = ''14'' \<and> k = ''seed'' then Some (seed_value r sd)
            else if has_key w n \<and> n = ''14'' \<and> k = ''cfg'' then Some cfg
            else if has_key w n \<and> n = ''14'' \<and> k = ''steps'' then Some st
            else if has_key w n \<and> n = ''115'' \<and> k = ''text'' then Some p
            else if has_key w n \<and> n = ''31'' \<and> k = ''image'' then Some (PStr img)
            else input_of w n k)"
proof -
  from assms obtain w1 w2 w3 where 1: "inject_input_image w img = Inr w1"
    and 2: "inject_prompt w1 p = Inr w2"
    and 3: "inject_ksampler_params w2 st cfg (seed_value r sd) = Inr w3"
    and 4: "inject_output_prefix w3 pre = Inr g"
    by (rule inject_steps)
  have k1: "has_key w1 m = has_key w m" for m
    by (rule same_shape_has_key [OF inject_input_image_shape [OF 1]])
  have k2: "has_key w2 m = has_key w1 m" for m
    by (rule same_shape_has_key [OF inject_prompt_shape [OF 2]])
  have k3: "has_key w3 m = has_key w2 m" for m
    by (rule same_shape_has_key [OF inject_ksampler_params_shape [OF 3]])
  show ?thesis
    unfolding inject_output_prefix_input [OF 4] inject_ksampler_params_input [OF 3]
        inject_prompt_input [OF 2] inject_input_image_input [OF 1] k1 k2 k3
    by auto
qed

lemma inject_one_total:
  assumes "has_key a n \<Longrightarrow> inputs_of a n \<noteq> None"
  shows "\<exists>b. (if has_key a n then set_input a n k v else Inr a) = Inr b"
proof (cases "has_key a n")
  case True
  with assms obtain ins where "inputs_of a n = Some ins" by blast
  from set_input_total [OF this] True show ?thesis by simp
next
  case False
  then show ?thesis by simp
qed

lemma shape_keeps_ok:
  assumes "same_shape a b" and "has_key a n \<Longrightarrow> inputs_of a n \<noteq> None"
  shows "has_key b n \<Longrightarrow> inputs_of b n \<noteq> None"
proof -
  assume "has_key b n"
  then have "has_key a n" by (simp add: same_shape_has_key [OF assms(1)])
  then have "inputs_of a n \<noteq> None" by (rule assms(2))
  moreover have "(inputs_of b n = None) = (inputs_of a n = None)"
    using assms(1) by (simp add: same_shape_def)
  ultimately show ?thesis by simp
qed

lemma inject_ksampler_params_total:
  assumes "has_key w ''14'' \<Longrightarrow> inputs_of w ''14'' \<noteq> None"
  shows "\<exists>w'. inject_ksampler_params w st cfg sd = Inr w'"
proof (cases "has_key w ''14''")
  case False
  then show ?thesis by (simp add: inject_ksampler_params_def)
next
  case True
  with assms obtain i0 where i0: "inputs_of w ''14'' = Some i0" by blast
  from set_input_total [OF i0] obtain x1 where x1: "set_input w ''14'' ''steps'' st = Inr x1"
    by blast
  from i0 obtain i1 where i1: "inputs_of x1 ''14'' = Some i1"
    by (simp add: inputs_of_set_input [OF x1])
  from set_input_total [OF i1] obtain x2 where x2: "set_input x1 ''14'' ''cfg'' cfg = Inr x2"
    by blast
  from i1 obtain i2 where i2: "inputs_of x2 ''14'' = Some i2"
    by (simp add: inputs_of_set_input [OF x2])
  from set_input_total [OF i2] obtain x3 where x3: "set_input x2 ''14'' ''seed'' sd = Inr x3"
    by blast
  show ?thesis using True x1 x2 x3 by (simp add: inject_ksampler_params_def)
qed

lemma inject_total:
  assumes a1: "has_key w ''31'' \<Longrightarrow> inputs_of w ''31'' \<noteq> None"
    and a2: "has_key w ''115'' \<Longrightarrow> inputs_of w ''115'' \<noteq> None"
    and a3: "has_key w ''14'' \<Longrightarrow> inputs_of w ''14'' \<noteq> None"
    and a4: "has_key w ''80'' \<Longrightarrow> inputs_of w ''80'' \<noteq> None"
  shows "\<exists>g. inject_workflow_parameters r w img p st cfg sd pre = Inr g"
proof -
  from inject_one_total [of w "''31''", OF a1]
  obtain w1 where 1: "inject_input_image w img = Inr w1"
    unfolding inject_input_image_def by blast
  note s1 = inject_input_image_shape [OF 1]
  from inject_one_total [of w1 "''115''", OF shape_keeps_ok [OF s1 a2]]
  obtain w2 where 2: "inject_prompt w1 p = Inr w2"
    unfolding inject_prompt_def by blast
  note s2 = same_shape_trans [OF s1 inject_prompt_shape [OF 2]]
  from inject_ksampler_params_total [of w2, OF shape_keeps_ok [OF s2 a3]]
  obtain w3 where 3: "inject_ksampler_params w2 st cfg (seed_value r sd) = Inr w3"
    by blast
  note s3 = same_shape_trans [OF s2 inject_ksampler_params_shape [OF 3]]
  from inject_one_total [of w3 "''80''", OF shape_keeps_ok [OF s3 a4]]
  obtain g where 4: "inject_output_prefix w3 pre = Inr g"
    unfolding inject_output_prefix_def by blast
  show ?thesis using 1 2 3 4 by (simp add: inject_workflow_parameters_def)
qed

subsection \<open>The template\<close>

lemma template_keys:
  "map fst get_workflow_template =
     [''22'', ''76'', ''77'', ''125'', ''20'', ''31'', ''39'', ''10'', ''115'', ''3'', ''2'', ''1'',
      ''14'', ''12'', ''80'']"
  by (simp add: get_workflow_template_def)

lemma template_has_key:
  "has_key get_workflow_template ''31''" "has_key get_workflow_template ''115''"
  "has_key get_workflow_template ''14''" "has_key get_workflow_template ''80''"
  by (simp_all add: has_key_iff template_keys)

lemma template_inputs:
  "inputs_of get_workflow_template ''31'' \<noteq> None"
  "inputs_of get_workflow_template ''115'' \<noteq> None"
  "inputs_of get_workflow_template ''14'' \<noteq> None"
  "inputs_of get_workflow_template ''80'' \<noteq> None"
  by (simp_all add: inputs_of_def get_workflow_template_def node_def)

lemma template_total:
  "\<exists>g. inject_workflow_parameters r get_workflow_template img p st cfg sd pre = Inr g"
  by (rule inject_total) (rule template_inputs)+




lemma template_slots:
  "input_of get_workflow_template ''31'' ''image'' = Some (PStr INPUT_IMAGE_PLACEHOLDER)"
  "input_of get_workflow_template ''115'' ''text'' = Some (PStr PROMPT_PLACEHOLDER)"
  "input_of get_workflow_template ''14'' ''steps'' = Some (PStr STEPS_PLACEHOLDER)"
  "input_of get_workflow_template ''14'' ''cfg'' = Some (PStr CFG_PLACEHOLDER)"
  "input_of get_workflow_template ''14'' ''seed'' = Some (PStr SEED_PLACEHOLDER)"
  "input_of get_workflow_template ''80'' ''filename_prefix'' = Some (PStr OUTPUT_PREFIX_PLACEHOLDER)"
  by (simp_all add: input_of_def get_workflow_template_def node_def)

subsection \<open>Decimal strings\<close>








subsection \<open>Injection into the template\<close>

lemma template_inject:
  obtains g where "inject_workflow_parameters r get_workflow_template img p st cfg sd pre = Inr g"
  using template_total by blast

text \<open>
  C1.  Injection fidelity: whatever the parameters, the injection into the template
  returns a graph whose sampler node "14" holds the given steps, the given cfg and the
  resolved seed, and whose node "115" holds the given prompt as its text, each value
  unchanged.  The parameters are any Python values, the valid ones among them.
\<close>

theorem injection_fidelity:
  "\<exists>g. inject_workflow_parameters r get_workflow_template img prompt steps cfg seed pre = Inr g
     \<and> input_of g ''14'' ''steps'' = Some steps
     \<and> input_of g ''14'' ''cfg'' = Some cfg
     \<and> input_of g ''14'' ''seed'' = Some (seed_value r seed)
     \<and> input_of g ''115'' ''text'' = Some prompt"
proof -
  obtain g where g: "inject_workflow_parameters r get_workflow_template img prompt steps cfg
      seed pre = Inr g"
    by (rule template_inject)
  show ?thesis
    by (rule exI [of _ g]) (simp add: g inject_input [OF g] template_has_key)
qed











subsection \<open>Absent nodes\<close>

lemma inject_keeps_keys:
  assumes "inject_workflow_parameters r w img p st cfg sd pre = Inr g"
  shows "map fst g = map fst w" and "has_key g n = has_key w n"
  using inject_shape [OF assms] by (simp_all add: same_shape_def has_key_iff)






lemma slot_cases:
  "(n, k) \<in> set designated_slots \<longleftrightarrow>
     n = ''31'' \<and> k = ''image'' \<or> n = ''115'' \<and> k = ''text'' \<or> n = ''14'' \<and> k = ''steps''
     \<or> n = ''14'' \<and> k = ''cfg'' \<or> n = ''14'' \<and> k = ''seed''
     \<or> n = ''80'' \<and> k = ''filename_prefix''"
  by (simp add: designated_slots_def)

lemma inject_other_inputs:
  assumes "inject_workflow_parameters r w img p st cfg sd pre = Inr g"
    and "(n, k) \<notin> set designated_slots"
  shows "input_of g n k = input_of w n k"
proof -
  from assms(2) have f: "(has_key w n \<and> n = ''80'' \<and> k = ''filename_prefix'') = False"
    "(has_key w n \<and> n = ''14'' \<and> k = ''seed'') = False"
    "(has_key w n \<and> n = ''14'' \<and> k = ''cfg'') = False"
    "(has_key w n \<and> n = ''14'' \<and> k = ''steps'') = False"
    "(has_key w n \<and> n = ''115'' \<and> k = ''text'') = False"
    "(has_key w n \<and> n = ''31'' \<and> k = ''image'') = False"
    unfolding slot_cases by simp_all
  show ?thesis by (simp only: inject_input [OF assms(1)] f if_False)
qed

lemma template_slot_literal:
  assumes "(n, k) \<in> set designated_slots"
  shows "\<exists>s. input_of get_workflow_template n k = Some (PStr s)"
  using assms unfolding slot_cases
  by (elim disjE conjE) (simp_all add: template_slots)



lemma template_length: "length get_workflow_template = 15"
  by (simp add: get_workflow_template_def)

lemma template_references_kept:
  assumes g: "inject_workflow_parameters r get_workflow_template img p st cfg sd pre = Inr g"
    and t: "input_of get_workflow_template n k = Some (ref m i)"
  shows "input_of g n k = Some (ref m i)"
proof (cases "(n, k) \<in> set designated_slots")
  case True
  from template_slot_literal [OF this] t show ?thesis by (simp add: ref_def)
next
  case False
  from inject_other_inputs [OF g this] t show ?thesis by simp
qed

lemma inject_fields:
  assumes "inject_workflow_parameters r w img p st cfg sd pre = Inr g"
  shows "f \<noteq> ''inputs'' \<Longrightarrow> field_of g n f = field_of w n f"
  using inject_shape [OF assms] by (simp add: same_shape_def)

text \<open>
  C9, as the code has it.  The template has exactly 15 nodes, with 15 different ids.
  The injection into it returns a graph with the same node ids in the same order; every
  field of a node beside its inputs (the class type) is as in the template; every input
  outside the six designated slots is as in the template; and every input of the
  template that is a reference to a node is the same reference in the result.  For any
  graph at all, the injection changes nothing but the six designated slots.
\<close>

theorem template_size_and_references:
  "length get_workflow_template = 15
   \<and> distinct (map fst get_workflow_template)
   \<and> (\<exists>g. inject_workflow_parameters r get_workflow_template img p st cfg sd pre = Inr g
        \<and> map fst g = map fst get_workflow_template
        \<and> (\<forall>n f. f \<noteq> ''inputs'' \<longrightarrow> field_of g n f = field_of get_workflow_template n f)
        \<and> (\<forall>n k. (n, k) \<notin> set designated_slots \<longrightarrow>
              input_of g n k = input_of get_workflow_template n k)
        \<and> (\<forall>n k m i. input_of get_workflow_template n k = Some (ref m i) \<longrightarrow>
              input_of g n k = Some (ref m i)))
   \<and> (inject_workflow_parameters r w img p st cfg sd pre = Inr g' \<longrightarrow>
        map fst g' = map fst w
        \<and> (\<forall>n f. f \<noteq> ''inputs'' \<longrightarrow> field_of g' n f = field_of w n f)
        \<and> (\<forall>n k. (n, k) \<notin> set designated_slots \<longrightarrow> input_of g' n k = input_of w n k))"
proof (intro conjI impI)
  show "length get_workflow_template = 15" by (rule template_length)
  show "distinct (map fst get_workflow_template)" by (simp add: template_keys)
  show "\<exists>g. inject_workflow_parameters r get_workflow_template img p st cfg sd pre = Inr g
        \<and> map fst g = map fst get_workflow_template
        \<and> (\<forall>n f. f \<noteq> ''inputs'' \<longrightarrow> field_of g n f = field_of get_workflow_template n f)
        \<and> (\<forall>n k. (n, k) \<notin> set designated_slots \<longrightarrow>
              input_of g n k = input_of get_workflow_template n k)
        \<and> (\<forall>n k m i. input_of get_workflow_template n k = Some (ref m i) \<longrightarrow>
              input_of g n k = Some (ref m i))"
  proof -
    obtain g where g: "inject_workflow_parameters r get_workflow_template img p st cfg sd
        pre = Inr g"
      by (rule template_inject)
    show ?thesis
    proof (intro exI [of _ g] conjI allI impI)
      show "inject_workflow_parameters r get_workflow_template img p st cfg sd pre = Inr g"
        by (rule g)
      show "map fst g = map fst get_workflow_template"
        by (rule inject_keeps_keys(1) [OF g])
      show "field_of g n f = field_of get_workflow_template n f" if "f \<noteq> ''inputs''" for n f
        using that by (rule inject_fields [OF g])
      show "input_of g n k = input_of get_workflow_template n k"
        if "(n, k) \<notin> set designated_slots" for n k
        using that by (rule inject_other_inputs [OF g])
      show "input_of g n k = Some (ref m i)"
        if "input_of get_workflow_template n k = Some (ref m i)" for n k m i
        using that by (rule template_references_kept [OF g])
    qed
  qed
next
  assume g': "inject_workflow_parameters r w img p st cfg sd pre = Inr g'"
  show "map fst g' = map fst w" by (rule inject_keeps_keys(1) [OF g'])
  show "\<forall>n f. f \<noteq> ''inputs'' \<longrightarrow> field_of g' n f = field_of w n f"
    by (intro allI impI) (rule inject_fields [OF g'])
  show "\<forall>n k. (n, k) \<notin> set designated_slots \<longrightarrow> input_of g' n k = input_of w n k"
    by (intro allI impI) (rule inject_other_inputs [OF g'])
qed

theorem template_size_and_references_witness:
  "input_of get_workflow_template ''14'' ''model'' = Some (ref ''1'' 0)
   \<and> (\<exists>g. inject_workflow_parameters 0 get_workflow_template ''input.png''
          (PStr ''rotate left 45'') (PInt 8) (PFloat 3) PNone ''qwen_left_45'' = Inr g
        \<and> length g = 15
        \<and> field_of g ''14'' ''class_type'' = Some (PStr ''KSampler'')
        \<and> input_of g ''14'' ''model'' = Some (ref ''1'' 0))"
proof -
  have m: "input_of get_workflow_template ''14'' ''model'' = Some (ref ''1'' 0)"
    by (simp add: input_of_def get_workflow_template_def node_def)
  have c: "field_of get_workflow_template ''14'' ''class_type'' = Some (PStr ''KSampler'')"
    by (simp add: field_of_def get_workflow_template_def node_def)
  have ne: "''class_type'' \<noteq> ''inputs''" by simp
  from template_size_and_references [of 0 "''input.png''" "PStr ''rotate left 45''" "PInt 8"
      "PFloat 3" PNone "''qwen_left_45''" "[]" "[]"]
  obtain g where g: "inject_workflow_parameters 0 get_workflow_template ''input.png''
          (PStr ''rotate left 45'') (PInt 8) (PFloat 3) PNone ''qwen_left_45'' = Inr g"
    and k: "map fst g = map fst get_workflow_template"
    and f: "\<forall>n f. f \<noteq> ''inputs'' \<longrightarrow> field_of g n f = field_of get_workflow_template n f"
    and r: "\<forall>n k m i. input_of get_workflow_template n k = Some (ref m i) \<longrightarrow>
              input_of g n k = Some (ref m i)"
    by (elim conjE exE)
  have "length g = length (map fst g)" by simp
  also have "\<dots> = 15" unfolding k by (simp add: template_length)
  finally have l: "length g = 15" .
  from f [rule_format, OF ne, of "''14''"] c
  have c': "field_of g ''14'' ''class_type'' = Some (PStr ''KSampler'')" by simp
  from r [rule_format, OF m] have m': "input_of g ''14'' ''model'' = Some (ref ''1'' 0)" .
  show ?thesis
    by (intro conjI exI [of _ g]) (rule m g l c' m')+
qed

text \<open>The claim C9 fails on the size: the template does not have 14 nodes.\<close>

theorem template_size_counterexample:
  "length get_workflow_template \<noteq> 14"
  by (simp add: get_workflow_template_def)



section \<open>Properties of one job\<close>

lemma poll_once_pending:
  assumes "\<not> reports_output prompt_id (je_history env k)"
  shows "poll_once env prompt_id k = None"
proof (cases "je_history env k")
  case (Body history)
  show ?thesis
  proof (cases "history_entry history prompt_id")
    case None
    with Body show ?thesis by (simp add: poll_once_def)
  next
    case (Some e)
    with assms Body have "entry_output_80 e = None" by (simp add: reports_output_def)
    with Body Some show ?thesis by (simp add: poll_once_def split: option.splits)
  qed
qed (simp_all add: poll_once_def)

text \<open>An error status never ends the loop either: its exception is caught in the round.\<close>

lemma poll_once_error:
  assumes "reports_error prompt_id (je_history env k)"
  shows "poll_once env prompt_id k = None"
proof (cases "je_history env k")
  case (Body history)
  show ?thesis
  proof (cases "history_entry history prompt_id")
    case None
    with Body show ?thesis by (simp add: poll_once_def)
  next
    case (Some e)
    with assms Body have "entry_status_str e = Some (PStr ''error'')"
      by (simp add: reports_error_def)
    with Body Some show ?thesis by (simp add: poll_once_def)
  qed
qed (simp_all add: poll_once_def)

lemma poll_loop_times_out:
  assumes "\<forall>j. round_start env j < timeout * 1000 \<longrightarrow> poll_once env prompt_id j = None"
    and "elapsed = round_start env k"
  shows "poll_loop env prompt_id timeout k elapsed = Inl (TimeoutError (timeout_text timeout))"
  using assms
proof (induction env prompt_id timeout k elapsed rule: poll_loop.induct)
  case (1 env prompt_id timeout k elapsed)
  show ?case
  proof (cases "elapsed < timeout * 1000")
    case False
    then show ?thesis by (subst poll_loop.simps) simp
  next
    case True
    with "1.prems" have none: "poll_once env prompt_id k = None" by simp
    have "poll_loop env prompt_id timeout (Suc k) (elapsed + 1000 + je_lag env k)
            = Inl (TimeoutError (timeout_text timeout))"
      using True none "1.prems" by (intro "1.IH") simp_all
    with True none show ?thesis by (subst poll_loop.simps) simp
  qed
qed

text \<open>Round \<open>k\<close> begins no sooner than \<open>k\<close> seconds after the start.\<close>

lemma round_start_lower: "1000 * k \<le> round_start env k"
  by (induction k) simp_all

lemma poll_loop_first_round:
  assumes "0 < timeout" and "poll_once env prompt_id 0 = Some bytes"
  shows "poll_loop env prompt_id timeout 0 0 = Inr bytes"
  using assms by (subst poll_loop.simps) simp



lemma create_workflow_total:
  obtains g where "create_workflow r img p st cfg sd pre = Inr g"
  unfolding create_workflow_def by (rule template_inject)

lemma execute_times_out:
  assumes "je_submit env workflow = Body result" and "\<not> has_key result ''error''"
    and "\<forall>k. round_start env k < timeout * 1000 \<longrightarrow>
           \<not> reports_output (dict_get result ''prompt_id'' PNone) (je_history env k)"
  shows "execute_workflow_via_api fmt env workflow timeout
           = Inl (TimeoutError (timeout_text timeout))"
proof -
  from assms(3)
  have "\<forall>k. round_start env k < timeout * 1000 \<longrightarrow>
          poll_once env (dict_get result ''prompt_id'' PNone) k = None"
    by (simp add: poll_once_pending)
  then have "poll_loop env (dict_get result ''prompt_id'' PNone) timeout 0 0
               = Inl (TimeoutError (timeout_text timeout))"
    by (rule poll_loop_times_out) simp
  with assms(1,2) show ?thesis by (simp add: execute_workflow_via_api_def)
qed

lemma infer_single_runs:
  assumes "je_healthy env" and "je_input_dir env = None" and "je_save_input env img64 = None"
    and "je_save_workflow env = None"
    and "create_workflow (je_rand env) (''input_'' @ je_client_id env @ ''.png'') prompt steps cfg
           seed (output_prefix @ ''_'' @ je_client_id env) = Inr g"
  shows "infer_single fmt env img64 prompt steps cfg seed output_prefix
           = (case execute_workflow_via_api fmt env g 120 of
                Inl e \<Rightarrow> (Inl (reraise e), Some g)
              | Inr output_image \<Rightarrow> (Inr output_image, Some g))"
  using assms by (simp add: infer_single_def)







section \<open>Properties of the generation loop\<close>





text \<open>The first job that fails ends the loop: the reply is the failure reply of its
  perspective, and the jobs run are those of the indices up to it.\<close>

lemma generate_loop_fails:
  assumes "k < length ps"
    and "\<forall>j<k. \<exists>q img posted. ps ! j = PDict q \<and> sliceable (perspective_prompt q)
             \<and> run_job fmt env im st cf sd (i + j) q = (Inr img, posted)"
    and "ps ! k = PDict p" and "sliceable (perspective_prompt p)"
    and "run_job fmt env im st cf sd (i + k) p = (Inl e, posted)"
  shows "\<exists>log. generate_loop fmt env im st cf sd i ps acc jobs
              = (Inr (failure_response fmt (perspective_name (i + k) p) e), jobs @ log)
           \<and> map fst log = [i..<i + k + 1]"
  using assms
proof (induction k arbitrary: i ps acc jobs)
  case 0
  then obtain xs where ps: "ps = PDict p # xs" by (cases ps) auto
  from 0 show ?case
    by (intro exI [of _ "[(i, posted)]"]) (simp add: ps)
next
  case (Suc k)
  from Suc.prems(1) obtain x xs where ps: "ps = x # xs" by (cases ps) auto
  from Suc.prems(2) [rule_format, of 0] ps obtain q img posted0 where x: "x = PDict q"
    and sl: "sliceable (perspective_prompt q)"
    and rj: "run_job fmt env im st cf sd i q = (Inr img, posted0)"
    by auto
  have before: "\<forall>j<k. \<exists>q img posted. xs ! j = PDict q \<and> sliceable (perspective_prompt q)
             \<and> run_job fmt env im st cf sd (Suc i + j) q = (Inr img, posted)"
  proof (intro allI impI)
    fix j assume "j < k"
    then have "Suc j < Suc k" by simp
    from Suc.prems(2) [rule_format, OF this] ps
    show "\<exists>q img posted. xs ! j = PDict q \<and> sliceable (perspective_prompt q)
             \<and> run_job fmt env im st cf sd (Suc i + j) q = (Inr img, posted)"
      by simp
  qed
  from Suc.prems ps have k: "k < length xs" and p: "xs ! k = PDict p"
    and f: "run_job fmt env im st cf sd (Suc i + k) p = (Inl e, posted)"
    by simp_all
  from Suc.IH [OF k before p Suc.prems(4) f,
      of "acc @ [image_entry env (perspective_id i q) (perspective_name i q) img sd]"
         "jobs @ [(i, posted0)]"]
  obtain log where run: "generate_loop fmt env im st cf sd (Suc i) xs
        (acc @ [image_entry env (perspective_id i q) (perspective_name i q) img sd])
        (jobs @ [(i, posted0)])
      = (Inr (failure_response fmt (perspective_name (Suc i + k) p) e),
         (jobs @ [(i, posted0)]) @ log)"
    and idx: "map fst log = [Suc i..<Suc i + k + 1]"
    by blast
  have "[i..<i + Suc k + 1] = i # [Suc i..<Suc i + k + 1]"
    by (simp add: upt_conv_Cons)
  with run idx ps x sl rj show ?case
    by (intro exI [of _ "(i, posted0) # log"]) simp
qed



section \<open>Properties of the checks\<close>


lemma error_response_no_images: "response_images (error_response status code message) = []"
  by (simp add: error_response_def response_images_def)


lemma check_perspectives_dicts:
  "check_perspectives i ps = None \<Longrightarrow> j < length ps \<Longrightarrow>
     \<exists>p. ps ! j = PDict p \<and> py_truthy (dict_get p ''prompt'' PNone)"
proof (induction i ps arbitrary: j rule: check_perspectives.induct)
  case (2 i p ps)
  show ?case
  proof (cases "py_truthy (dict_get p ''prompt'' PNone)")
    case True
    with 2 show ?thesis by (cases j) simp_all
  next
    case False
    with "2.prems" show ?thesis by simp
  qed
qed simp_all





lemma generate_passes:
  assumes "check_image_and_perspectives env request = None" and "check_params request = None"
    and "dict_get request ''perspectives'' (PList []) = PList ps"
  shows "generate fmt env request
           = generate_loop fmt env (dict_get request ''image'' PNone)
               (dict_get request ''steps'' (PInt 8)) (dict_get request ''cfg_scale'' (PFloat 3))
               (dict_get request ''seed'' PNone) 0 ps [] []"
  unfolding generate_def by (simp only: assms option.case sum.case iter_items.simps)










section \<open>The example worlds\<close>

lemma job_done_fields:
  "je_healthy job_done" "je_input_dir job_done = None" "je_save_input job_done im = None"
  "je_save_workflow job_done = None" "je_rand job_done = 7"
  "je_submit job_done g = Body [(''prompt_id'', PStr ''p1'')]"
  by (simp_all add: job_done_def)

lemma job_pending_fields:
  "je_healthy job_pending" "je_input_dir job_pending = None"
  "je_save_input job_pending im = None" "je_save_workflow job_pending = None"
  "je_submit job_pending g = Body [(''prompt_id'', PStr ''p1'')]"
  "je_history job_pending k = Body []"
  by (simp_all add: job_pending_def job_done_def)


lemma reply_p1:
  "\<not> has_key [(''prompt_id'', PStr ''p1'')] ''error''"
  "dict_get [(''prompt_id'', PStr ''p1'')] ''prompt_id'' PNone = PStr ''p1''"
  by (simp_all add: has_key_def dict_get_def)

lemma job_done_poll: "poll_once job_done (PStr ''p1'') 0 = Some ''PNG''"
  by (simp add: poll_once_def job_done_def history_done_def entry_status_str_def
      entry_output_80_def first_image_def dict_get_def)

lemma job_done_execute: "execute_workflow_via_api fmt job_done g 120 = Inr ''PNG''"
proof -
  have "poll_loop job_done (PStr ''p1'') 120 0 0 = Inr ''PNG''"
    by (rule poll_loop_first_round) (simp_all add: job_done_poll)
  then show ?thesis
    by (simp add: execute_workflow_via_api_def job_done_fields reply_p1)
qed

lemma job_pending_execute:
  "execute_workflow_via_api fmt job_pending g 120 = Inl (TimeoutError (timeout_text 120))"
  by (rule execute_times_out [where result = "[(''prompt_id'', PStr ''p1'')]"])
    (simp_all add: job_pending_fields reply_p1 reports_output_def)


lemma world_fields:
  "ge_healthy (world jobs)" "ge_job (world jobs) i = jobs i"
  "ge_b64encode (world jobs) bytes = bytes"
  "image_error (world jobs) im = None"
  by (simp_all add: world_def image_error_def)

lemma run_job_done:
  assumes "jobs i = job_done"
  shows "\<exists>g. run_job fmt (world jobs) im st cf sd i p = (Inr ''PNG'', Some g)"
proof -
  obtain g where g: "create_workflow (je_rand job_done) (''input_'' @ je_client_id job_done @ ''.png'')
      (perspective_prompt p) st cf sd
      ((''qwen_'' @ py_str fmt (perspective_id i p)) @ ''_'' @ je_client_id job_done) = Inr g"
    by (rule create_workflow_total)
  have "run_job fmt (world jobs) im st cf sd i p = (Inr ''PNG'', Some g)"
    unfolding run_job_def world_fields assms
    by (subst infer_single_runs [OF job_done_fields(1-4) g]) (simp add: job_done_execute)
  then show ?thesis ..
qed

lemma run_job_pending:
  assumes "jobs i = job_pending"
  shows "\<exists>g. run_job fmt (world jobs) im st cf sd i p
           = (Inl (TimeoutError (timeout_text 120)), Some g)"
proof -
  obtain g where g: "create_workflow (je_rand job_pending)
      (''input_'' @ je_client_id job_pending @ ''.png'') (perspective_prompt p) st cf sd
      ((''qwen_'' @ py_str fmt (perspective_id i p)) @ ''_'' @ je_client_id job_pending) = Inr g"
    by (rule create_workflow_total)
  have "run_job fmt (world jobs) im st cf sd i p
          = (Inl (TimeoutError (timeout_text 120)), Some g)"
    unfolding run_job_def world_fields assms
    by (subst infer_single_runs [OF job_pending_fields(1-4) g])
      (simp add: job_pending_execute reraise_def)
  then show ?thesis ..
qed


lemma view_fields:
  "perspective_id i [(''id'', a), (''name'', b), (''prompt'', c)] = a"
  "perspective_name i [(''id'', a), (''name'', b), (''prompt'', c)] = b"
  "perspective_prompt [(''id'', a), (''name'', b), (''prompt'', c)] = c"
  by (simp_all add: perspective_id_def perspective_name_def perspective_prompt_def dict_get_def)

lemma check_views: "check_perspectives i (map view names) = None"
  by (induction names arbitrary: i) (simp_all add: view_def dict_get_def)

lemma request_fields:
  "dict_get (batch_request ps st sd) ''image'' PNone = PStr ''aGVsbG8=''"
  "dict_get (batch_request ps st sd) ''perspectives'' (PList []) = PList ps"
  "dict_get (batch_request ps st sd) ''steps'' (PInt 8) = st"
  "dict_get (batch_request ps st sd) ''cfg_scale'' (PFloat 3) = PFloat 3"
  "dict_get (batch_request ps st sd) ''seed'' PNone = sd"
  by (simp_all add: batch_request_def dict_get_def)

lemma world_checks:
  assumes "names \<noteq> []"
  shows "check_image_and_perspectives (world jobs) (batch_request (map view names) st sd) = None"
  using assms
  by (simp add: check_image_and_perspectives_def request_fields world_fields check_views)

lemma eight_steps: "check_params (batch_request ps (PInt 8) sd) = None"
  by (simp add: check_params_def request_fields steps_rejected_def cfg_rejected_def)



section \<open>Properties of the batch endpoint\<close>







lemma failure_response_codes:
  "failure_response fmt pname (TimeoutError m)
     = error_response 504 ''timeout'' (text_view_open @ py_str fmt pname @ text_timed_out)"
  "failure_response fmt pname (RuntimeError m)
     = error_response 500 ''generation_error''
         (text_view_open @ py_str fmt pname @ text_failed @ m)"
  by (simp_all add: failure_response_def)






lemma timeout_text_default:
  "timeout_text 120 = ''Workflow execution timed out after 120 seconds''"
  by (simp add: timeout_text_def str_nat.simps digit_char_def)

text \<open>
  C8.  Timeout classification.  For any budget: when the submission is accepted and no
  round of the loop within the budget observes an error status or an output of the
  save node "80", the orchestrator raises the \<open>TimeoutError\<close>.  With the budget of 120
  seconds that \<open>infer_single\<close> uses: when the request passes the checks, the jobs of the
  perspectives before index \<open>i\<close> succeed, and the job of perspective \<open>i\<close> is submitted
  and observes no terminal state in its rounds, that job ends in the \<open>TimeoutError\<close>
  and the batch call answers with status 504 and code \<open>timeout\<close>.  The rounds within
  the budget are those that begin before the budget has run out; the loop sleeps a
  second in every round, so round \<open>k\<close> begins no sooner than \<open>k\<close> seconds after the
  start (\<open>round_start_lower\<close>).
\<close>

theorem timeout_classification:
  assumes "check_image_and_perspectives env request = None"
    and "check_params request = None"
    and "dict_get request ''perspectives'' (PList []) = PList ps"
    and "im = dict_get request ''image'' PNone"
    and "st = dict_get request ''steps'' (PInt 8)"
    and "cf = dict_get request ''cfg_scale'' (PFloat 3)"
    and "sd = dict_get request ''seed'' PNone"
    and "i < length ps" and "ps ! i = PDict p" and "sliceable (perspective_prompt p)"
    and "\<forall>j<i. \<exists>q img posted. ps ! j = PDict q \<and> sliceable (perspective_prompt q)
           \<and> run_job fmt env im st cf sd j q = (Inr img, posted)"
    and "job = ge_job env i"
    and "je_healthy job" and "je_input_dir job = None" and "je_save_input job im = None"
    and "je_save_workflow job = None"
    and "create_workflow (je_rand job) (''input_'' @ je_client_id job @ ''.png'')
           (perspective_prompt p) st cf sd
           ((''qwen_'' @ py_str fmt (perspective_id i p)) @ ''_'' @ je_client_id job) = Inr g"
    and "je_submit job g = Body result" and "\<not> has_key result ''error''"
    and "prompt_id = dict_get result ''prompt_id'' PNone"
    and "\<forall>k. round_start job k < 120 * 1000 \<longrightarrow>
           \<not> reports_error prompt_id (je_history job k)
           \<and> \<not> reports_output prompt_id (je_history job k)"
  shows "execute_workflow_via_api fmt job g 120 = Inl (TimeoutError (timeout_text 120))
         \<and> timeout_text 120 = ''Workflow execution timed out after 120 seconds''
         \<and> run_job fmt env im st cf sd i p = (Inl (TimeoutError (timeout_text 120)), Some g)
         \<and> (\<exists>jobs. generate fmt env request
               = (Inr (error_response 504 ''timeout''
                        (text_view_open @ py_str fmt (perspective_name i p) @ text_timed_out)),
                  jobs))
         \<and> (\<forall>t w r. je_submit job w = Body r \<and> \<not> has_key r ''error''
                \<and> (\<forall>k. round_start job k < t * 1000 \<longrightarrow>
                         \<not> reports_error (dict_get r ''prompt_id'' PNone) (je_history job k)
                         \<and> \<not> reports_output (dict_get r ''prompt_id'' PNone)
                               (je_history job k))
              \<longrightarrow> execute_workflow_via_api fmt job w t = Inl (TimeoutError (timeout_text t)))"
proof -
  have ex: "execute_workflow_via_api fmt job g 120 = Inl (TimeoutError (timeout_text 120))"
    by (rule execute_times_out [OF assms(18,19)]) (use assms(20,21) in simp)
  have rj: "run_job fmt env im st cf sd i p = (Inl (TimeoutError (timeout_text 120)), Some g)"
    unfolding run_job_def assms(12) [symmetric]
    by (subst infer_single_runs [OF assms(13,14,15,16,17)]) (simp add: ex reraise_def)
  have before: "\<forall>j<i. \<exists>q img posted. ps ! j = PDict q \<and> sliceable (perspective_prompt q)
           \<and> run_job fmt env im st cf sd (0 + j) q = (Inr img, posted)"
    using assms(11) by simp
  have fails: "run_job fmt env im st cf sd (0 + i) p
                 = (Inl (TimeoutError (timeout_text 120)), Some g)"
    using rj by simp
  from generate_loop_fails [OF assms(8) before assms(9) assms(10) fails, of "[]" "[]"]
  obtain log where run: "generate_loop fmt env im st cf sd 0 ps [] []
        = (Inr (failure_response fmt (perspective_name (0 + i) p)
                  (TimeoutError (timeout_text 120))), [] @ log)"
    by (elim exE conjE)
  have gen: "generate fmt env request
        = (Inr (error_response 504 ''timeout''
                  (text_view_open @ py_str fmt (perspective_name i p) @ text_timed_out)), log)"
    unfolding generate_passes [OF assms(1,2,3)]
    using run assms(4,5,6,7) by (simp add: failure_response_codes)
  have any: "execute_workflow_via_api fmt job w t = Inl (TimeoutError (timeout_text t))"
    if "je_submit job w = Body r" and "\<not> has_key r ''error''"
      and "\<forall>k. round_start job k < t * 1000 \<longrightarrow>
               \<not> reports_error (dict_get r ''prompt_id'' PNone) (je_history job k)
               \<and> \<not> reports_output (dict_get r ''prompt_id'' PNone) (je_history job k)"
    for t w r
    by (rule execute_times_out [OF that(1,2)]) (use that(3) in simp)
  show ?thesis
  proof (intro conjI allI impI)
    show "execute_workflow_via_api fmt job g 120 = Inl (TimeoutError (timeout_text 120))"
      by (rule ex)
    show "timeout_text 120 = ''Workflow execution timed out after 120 seconds''"
      by (rule timeout_text_default)
    show "run_job fmt env im st cf sd i p = (Inl (TimeoutError (timeout_text 120)), Some g)"
      by (rule rj)
    show "\<exists>jobs. generate fmt env request
               = (Inr (error_response 504 ''timeout''
                        (text_view_open @ py_str fmt (perspective_name i p) @ text_timed_out)),
                  jobs)"
      using gen by (rule exI)
    fix t w r
    assume "je_submit job w = Body r \<and> \<not> has_key r ''error''
                \<and> (\<forall>k. round_start job k < t * 1000 \<longrightarrow>
                         \<not> reports_error (dict_get r ''prompt_id'' PNone) (je_history job k)
                         \<and> \<not> reports_output (dict_get r ''prompt_id'' PNone)
                               (je_history job k))"
    then show "execute_workflow_via_api fmt job w t = Inl (TimeoutError (timeout_text t))"
      using any by blast
  qed
qed

theorem timeout_classification_witness:
  "\<exists>jobs. generate no_text (world second_pending)
        (batch_request (map view [''A'', ''B'', ''C'']) (PInt 8) PNone)
     = (Inr (error_response 504 ''timeout''
               (text_view_open @ ''B'' @ text_timed_out)), jobs)"
proof -
  let ?req = "batch_request (map view [''A'', ''B'', ''C'']) (PInt 8) PNone"
  let ?b = "[(''id'', PStr ''B''), (''name'', PStr ''B''), (''prompt'', PStr (''rotate '' @ ''B''))]"
  let ?a = "[(''id'', PStr ''A''), (''name'', PStr ''A''), (''prompt'', PStr (''rotate '' @ ''A''))]"
  have c1: "check_image_and_perspectives (world second_pending) ?req = None"
    by (rule world_checks) simp
  have c2: "check_params ?req = None" by (rule eight_steps)
  have ps: "dict_get ?req ''perspectives'' (PList []) = PList (map view [''A'', ''B'', ''C''])"
    by (rule request_fields)
  have i: "1 < length (map view [''A'', ''B'', ''C''])" by simp
  have p: "map view [''A'', ''B'', ''C''] ! 1 = PDict ?b" by (simp add: view_def)
  have sl: "sliceable (perspective_prompt ?b)" by (simp only: view_fields sliceable.simps)
  from run_job_done [of second_pending 0 no_text "PStr ''aGVsbG8=''" "PInt 8" "PFloat 3" PNone ?a]
  obtain g0 where r0: "run_job no_text (world second_pending) (PStr ''aGVsbG8='') (PInt 8)
      (PFloat 3) PNone 0 ?a = (Inr ''PNG'', Some g0)"
    by (auto simp: second_pending_def)
  have before: "\<forall>j<1. \<exists>q img posted. map view [''A'', ''B'', ''C''] ! j = PDict q
           \<and> sliceable (perspective_prompt q)
           \<and> run_job no_text (world second_pending) (PStr ''aGVsbG8='') (PInt 8) (PFloat 3)
                PNone j q = (Inr img, posted)"
  proof (intro allI impI)
    fix j :: nat assume "j < 1"
    then have j: "j = 0" by simp
    have "map view [''A'', ''B'', ''C''] ! 0 = PDict ?a" by (simp add: view_def)
    moreover have "sliceable (perspective_prompt ?a)" by (simp only: view_fields sliceable.simps)
    ultimately show "\<exists>q img posted. map view [''A'', ''B'', ''C''] ! j = PDict q
           \<and> sliceable (perspective_prompt q)
           \<and> run_job no_text (world second_pending) (PStr ''aGVsbG8='') (PInt 8) (PFloat 3)
                PNone j q = (Inr img, posted)"
      using r0 unfolding j by blast
  qed
  have job: "job_pending = ge_job (world second_pending) 1"
    by (simp add: world_fields second_pending_def)
  obtain g where g: "create_workflow (je_rand job_pending)
      (''input_'' @ je_client_id job_pending @ ''.png'') (perspective_prompt ?b) (PInt 8)
      (PFloat 3) PNone
      ((''qwen_'' @ py_str no_text (perspective_id 1 ?b)) @ ''_'' @ je_client_id job_pending)
      = Inr g"
    by (rule create_workflow_total)
  have polls: "\<forall>k. round_start job_pending k < 120 * 1000 \<longrightarrow>
                 \<not> reports_error (PStr ''p1'') (je_history job_pending k)
                 \<and> \<not> reports_output (PStr ''p1'') (je_history job_pending k)"
    by (simp add: job_pending_fields reports_error_def reports_output_def)
  from timeout_classification [OF c1 c2 ps request_fields(1) [symmetric]
      request_fields(3) [symmetric] request_fields(4) [symmetric] request_fields(5) [symmetric]
      i p sl before job job_pending_fields(1-4) g job_pending_fields(5) reply_p1(1)
      reply_p1(2) [symmetric] polls]
  obtain jobs where "generate no_text (world second_pending) ?req
     = (Inr (error_response 504 ''timeout''
               (text_view_open @ py_str no_text (perspective_name 1 ?b) @ text_timed_out)), jobs)"
    by (elim exE conjE)
  then have "generate no_text (world second_pending) ?req
     = (Inr (error_response 504 ''timeout'' (text_view_open @ ''B'' @ text_timed_out)), jobs)"
    by (simp only: view_fields py_str.simps)
  then show ?thesis by (rule exI)
qed


















end
